theory Spec2Isabelle
  imports Main "HOL-Library.Word"
begin

section \<open>Data model of the retrieval script (retrieve\_cid.py)\<close>

text \<open>
  Python \<open>str\<close> and \<open>bytes\<close> values are both lists of characters; an Isabelle
  \<open>char\<close> is one byte, which covers every character of a content identifier, of a
  host name and of the file names the script builds. \<open>take 10 cid\<close> is \<open>cid[:10]\<close>.
\<close>

type_synonym str = string
type_synonym bytes = "char list"

text \<open>
  The module-level configuration, read from the process environment once at import time.
  \<open>os.getenv(name)\<close> is \<open>None\<close> for an unset variable; \<open>PINATA_GATEWAY\<close> has a default.
\<close>

record config =
  PINATA_GATEWAY :: str
  PINATA_API_KEY :: "str option"
  PINATA_SECRET_KEY :: "str option"
  PINATA_JWT :: "str option"

definition default_gateway :: str where
  "default_gateway = ''amethyst-impossible-ptarmigan-368.mypinata.cloud''"

definition load_config :: "(str \<rightharpoonup> str) \<Rightarrow> config" where
  "load_config environ =
     \<lparr> PINATA_GATEWAY = (case environ ''PINATA_GATEWAY'' of None \<Rightarrow> default_gateway | Some g \<Rightarrow> g),
       PINATA_API_KEY = environ ''PINATA_API_KEY'',
       PINATA_SECRET_KEY = environ ''PINATA_SECRET_KEY'',
       PINATA_JWT = environ ''PINATA_JWT'' \<rparr>"

text \<open>Python truthiness of an optional string: \<open>None\<close> and the empty string are false.\<close>

fun truthy :: "str option \<Rightarrow> bool" where
  "truthy None = False"
| "truthy (Some s) = (s \<noteq> [])"

text \<open>A gateway candidate is the dict \<open>{"url": ..., "headers": ..., "name": ...}\<close>.\<close>

record gateway =
  url :: str
  headers :: "(str \<times> str) list"
  name :: str

definition auth_gateway :: "config \<Rightarrow> str \<Rightarrow> gateway" where
  "auth_gateway cfg cid =
     \<lparr> url = ''https://'' @ PINATA_GATEWAY cfg @ ''/ipfs/'' @ cid,
       headers = [(''Authorization'', ''Bearer '' @ (case PINATA_JWT cfg of Some t \<Rightarrow> t | None \<Rightarrow> ''None''))],
       name = ''Pinata Authenticated Gateway (JWT)'' \<rparr>"

definition public_gateways :: "config \<Rightarrow> str \<Rightarrow> gateway list" where
  "public_gateways cfg cid =
     [ \<lparr> url = ''https://ipfs.io/ipfs/'' @ cid, headers = [], name = ''IPFS.io Public Gateway'' \<rparr>,
       \<lparr> url = ''https://gateway.pinata.cloud/ipfs/'' @ cid, headers = [], name = ''Pinata Public Gateway'' \<rparr>,
       \<lparr> url = ''https://dweb.link/ipfs/'' @ cid, headers = [], name = ''Protocol Labs dweb.link'' \<rparr>,
       \<lparr> url = ''https://'' @ PINATA_GATEWAY cfg @ ''/ipfs/'' @ cid, headers = [], name = ''Custom Pinata Gateway'' \<rparr> ]"

text \<open>Lines 27--46 of \<open>retrieve_from_ipfs\<close>: the list is built afresh on every call.\<close>

definition gateways :: "config \<Rightarrow> str \<Rightarrow> gateway list" where
  "gateways cfg cid =
     (if truthy (PINATA_JWT cfg) then [auth_gateway cfg cid] else []) @ public_gateways cfg cid"

section \<open>The network, exceptions and the observable state\<close>

text \<open>
  The value \<open>json.loads\<close> returns: \<open>None\<close>, \<open>bool\<close>, \<open>int\<close>, \<open>float\<close> (its 64 bits),
  \<open>str\<close>, \<open>list\<close> or \<open>dict\<close>. A \<open>dict\<close> keeps its keys in insertion order, each
  key once.
\<close>

datatype json =
    JNull
  | JBool bool
  | JInt int
  | JFloat "64 word"
  | JStr str
  | JArr "json list"
  | JObj "(str \<times> json) list"

datatype py_exn =
    RequestException str
  | JSONDecodeError
  | UnicodeDecodeError
  | TypeError
  | AttributeError
  | KeyError
  | ValueError str
  | HTTPException nat str
  | OtherException str

text \<open>
  One \<open>requests.get(url, headers=headers, timeout=30)\<close>. The call either returns a response,
  of which the script reads \<open>status_code\<close> and \<open>content\<close> only, or raises.
\<close>

record request =
  req_url :: str
  req_headers :: "(str \<times> str) list"
  req_timeout :: nat

datatype outcome = Response nat bytes | Raises py_exn

text \<open>
  The network is any deterministic environment: what a request yields may depend on every
  request issued before it.
\<close>

type_synonym network = "request list \<Rightarrow> request \<Rightarrow> outcome"

text \<open>
  One constructor for each \<open>print\<close> statement of the script. A message keeps the values
  the script computes itself (identifier, gateway name, status code, file name, lengths)
  and drops only the text layout.
\<close>

datatype msg =
    Retrieving str
  | Trying str
  | Success
  | Forbidden403
  | NotFound404
  | StatusOther nat
  | ErrorMsg str
  | FailedAllGateways
  | MayNotBePinned
  | ImageRetrieved
  | ImageFormat str
  | ImageSize nat nat
  | ImageMode str
  | SavedTo str
  | DisplayNotAvailable
  | ErrorProcessingImage py_exn
  | SavedRawTo str
  | JSONRetrieved
  | JSONSize nat
  | JSONContentHeader
  | JSONText str
  | ContainsBaseImage nat
  | ContainsDepthImage nat
  | ContainsDepthData
  | DepthShape json
  | DepthValidPixels json
  | Signature json
  | NotValidJSON
  | First500Header
  | First500 bytes
  | ErrorProcessingJSON py_exn
  | Banner
  | Title
  | GatewayLine str
  | UsingApiAuth
  | BlankLine
  | Separator
  | DetectedJPEG
  | DetectedPNG
  | DetectedJSON
  | DetectedImage str
  | UnknownContentType
  | UnknownSize nat
  | UnknownHex bytes
  | UnknownText bytes
  | RetrievalComplete

record state =
  sent :: "request list"
  files :: "str \<rightharpoonup> bytes"
  stdout :: "msg list"

definition print_msg :: "msg \<Rightarrow> state \<Rightarrow> state" where
  "print_msg m st = st\<lparr>stdout := stdout st @ [m]\<rparr>"

definition request_of :: "gateway \<Rightarrow> request" where
  "request_of g = \<lparr> req_url = url g, req_headers = headers g, req_timeout = 30 \<rparr>"

definition http_get :: "network \<Rightarrow> request \<Rightarrow> state \<Rightarrow> outcome \<times> state" where
  "http_get net rq st = (net (sent st) rq, st\<lparr>sent := sent st @ [rq]\<rparr>)"

section \<open>The gateway fallback resolver\<close>

text \<open>
  The \<open>for i, gateway in enumerate(gateways)\<close> loop, lines 48--75. The result is
  \<open>Inr (Some body)\<close> for the \<open>return response.content\<close> inside the loop, \<open>Inr None\<close> when
  the loop runs off the end of the list, and \<open>Inl e\<close> for an exception that the
  \<open>except requests.exceptions.RequestException\<close> clause does not catch.
\<close>

fun try_gateways :: "network \<Rightarrow> str \<Rightarrow> nat \<Rightarrow> gateway list \<Rightarrow> state \<Rightarrow> (py_exn + bytes option) \<times> state" where
  "try_gateways net cid i [] st = (Inr None, st)"
| "try_gateways net cid i (g # gs) st =
     (let st1 = (if i = 0 then print_msg (Retrieving cid) st else st);
          st2 = print_msg (Trying (name g)) st1;
          (out, st3) = http_get net (request_of g) st2
      in case out of
           Response code body \<Rightarrow>
             if code = 200 then (Inr (Some body), print_msg Success st3)
             else if code = 403 then try_gateways net cid (i + 1) gs (print_msg Forbidden403 st3)
             else if code = 404 then try_gateways net cid (i + 1) gs (print_msg NotFound404 st3)
             else try_gateways net cid (i + 1) gs (print_msg (StatusOther code) st3)
         | Raises e \<Rightarrow>
             (case e of
                RequestException m \<Rightarrow> try_gateways net cid (i + 1) gs (print_msg (ErrorMsg (take 50 m)) st3)
              | _ \<Rightarrow> (Inl e, st3)))"

definition retrieve_from_ipfs :: "config \<Rightarrow> network \<Rightarrow> str \<Rightarrow> state \<Rightarrow> (py_exn + bytes option) \<times> state" where
  "retrieve_from_ipfs cfg net cid st =
     (case try_gateways net cid 0 (gateways cfg cid) st of
        (Inr None, st') \<Rightarrow> (Inr None, print_msg MayNotBePinned (print_msg FailedAllGateways st'))
      | r \<Rightarrow> r)"

text \<open>
  Vocabulary for the claims about the resolver. A miss is a response whose status is not
  200 or a transport error (\<open>RequestException\<close>). \<open>outcomes net h rs\<close> is what the
  network answers when the requests \<open>rs\<close> are issued one after the other after the
  history \<open>h\<close>.
\<close>

fun is_miss :: "outcome \<Rightarrow> bool" where
  "is_miss (Response code body) = (code \<noteq> 200)"
| "is_miss (Raises (RequestException m)) = True"
| "is_miss (Raises _) = False"

fun outcomes :: "network \<Rightarrow> request list \<Rightarrow> request list \<Rightarrow> outcome list" where
  "outcomes net h [] = []"
| "outcomes net h (r # rs) = net h r # outcomes net (h @ [r]) rs"

section \<open>Library functions the script calls\<close>

text \<open>
  The script decides on what \<open>bytes.decode\<close>, \<open>json.loads\<close>, \<open>json.dump\<close> and Pillow's
  \<open>Image.open\<close> and \<open>Image.show\<close> do. They belong to the Python installation, not to this
  repository, so the model takes them as parameters: every theorem holds for whatever
  these functions compute.
  \<^item> \<open>utf8_decode b\<close> is \<open>b.decode('utf-8')\<close>; \<open>None\<close> stands for \<open>UnicodeDecodeError\<close>.
  \<^item> \<open>json_loads s\<close> is \<open>json.loads(s)\<close>; it raises \<open>JSONDecodeError\<close> on malformed text.
  \<^item> \<open>json_dumps_indent2 v\<close> is the text of \<open>json.dumps(v, indent=2)\<close>, which is also what
    \<open>json.dump(v, f, indent=2)\<close> writes; it is ASCII, so the file holds the same bytes.
  \<^item> \<open>json_dumps v\<close> is \<open>json.dumps(v)\<close>, and \<open>json_dumps_compact v\<close> is
    \<open>json.dumps(v, separators=(',', ':'))\<close>.
  \<^item> \<open>image_open b\<close> is \<open>Image.open(io.BytesIO(b))\<close>; \<open>image_show img\<close> tells whether
    \<open>img.show()\<close> returns without raising.
\<close>

record image =
  img_format :: str
  img_size :: "nat \<times> nat"
  img_mode :: str

record pylib =
  utf8_decode :: "bytes \<Rightarrow> str option"
  json_loads :: "str \<Rightarrow> py_exn + json"
  json_dumps_indent2 :: "json \<Rightarrow> str"
  json_dumps :: "json \<Rightarrow> str"
  json_dumps_compact :: "json \<Rightarrow> str"
  image_open :: "bytes \<Rightarrow> py_exn + image"
  image_show :: "image \<Rightarrow> bool"

section \<open>Python operations on parsed JSON values\<close>

fun is_substring :: "str \<Rightarrow> str \<Rightarrow> bool" where
  "is_substring k [] = (k = [])"
| "is_substring k (c # cs) = (take (length k) (c # cs) = k \<or> is_substring k cs)"

text \<open>\<open>k in v\<close> for a string \<open>k\<close>: key of a dict, element of a list, substring of a string.\<close>

fun py_in :: "str \<Rightarrow> json \<Rightarrow> py_exn + bool" where
  "py_in k (JObj kvs) = Inr (k \<in> set (map fst kvs))"
| "py_in k (JArr xs) = Inr (JStr k \<in> set xs)"
| "py_in k (JStr s) = Inr (is_substring k s)"
| "py_in k _ = Inl TypeError"

text \<open>\<open>v.get(k, d)\<close>: only a dict has the method.\<close>

fun py_get :: "json \<Rightarrow> str \<Rightarrow> json \<Rightarrow> py_exn + json" where
  "py_get (JObj kvs) k d = Inr (case map_of kvs k of Some v \<Rightarrow> v | None \<Rightarrow> d)"
| "py_get _ k d = Inl AttributeError"

text \<open>\<open>v[k]\<close> for a string \<open>k\<close>.\<close>

fun py_getitem :: "json \<Rightarrow> str \<Rightarrow> py_exn + json" where
  "py_getitem (JObj kvs) k = (case map_of kvs k of Some v \<Rightarrow> Inr v | None \<Rightarrow> Inl KeyError)"
| "py_getitem _ k = Inl TypeError"

fun py_len :: "json \<Rightarrow> py_exn + nat" where
  "py_len (JStr s) = Inr (length s)"
| "py_len (JArr xs) = Inr (length xs)"
| "py_len (JObj kvs) = Inr (length kvs)"
| "py_len _ = Inl TypeError"

text \<open>
  \<open>sig[:30]\<close>, \<open>len(sig)\<close> and \<open>sig[-30:]\<close> of line 142 succeed on a string and on a list.
  Every other value raises at the first slice (a dict with \<open>KeyError\<close> on interpreters
  whose slices are hashable, which the handler treats alike).
\<close>

fun py_sliceable :: "json \<Rightarrow> py_exn + unit" where
  "py_sliceable (JStr s) = Inr ()"
| "py_sliceable (JArr xs) = Inr ()"
| "py_sliceable _ = Inl TypeError"

section \<open>The rendering routines\<close>

text \<open>
  The working directory is taken to be writable: \<open>open(filename, 'wb')\<close> followed by
  \<open>f.write(content)\<close> always leaves the file holding exactly \<open>content\<close>.
\<close>

definition write_file :: "str \<Rightarrow> bytes \<Rightarrow> state \<Rightarrow> state" where
  "write_file filename content st = st\<lparr>files := (files st)(filename \<mapsto> content)\<rparr>"

definition print_msgs :: "msg list \<Rightarrow> state \<Rightarrow> state" where
  "print_msgs ms st = st\<lparr>stdout := stdout st @ ms\<rparr>"

definition retrieved_name :: "str \<Rightarrow> str \<Rightarrow> str" where
  "retrieved_name cid ext = ''retrieved_'' @ take 10 cid @ ext"

text \<open>
  \<open>display_image\<close>, lines 81--108. A routine returns the exception that leaves it, if any,
  and the state it leaves behind.
\<close>

definition display_image :: "pylib \<Rightarrow> bytes \<Rightarrow> str \<Rightarrow> state \<Rightarrow> py_exn option \<times> state" where
  "display_image lib content cid st =
     (case image_open lib content of
        Inr img \<Rightarrow>
          (let st1 = print_msgs [ImageRetrieved, ImageFormat (img_format img),
                                 ImageSize (fst (img_size img)) (snd (img_size img)),
                                 ImageMode (img_mode img)] st;
               filename = retrieved_name cid ''.jpg'';
               st2 = write_file filename content st1;
               st3 = print_msg (SavedTo filename) st2
           in if image_show lib img then (None, st3)
              else (None, print_msg DisplayNotAvailable st3))
      | Inl e \<Rightarrow>
          (let st1 = print_msg (ErrorProcessingImage e) st;
               filename = retrieved_name cid ''.bin'';
               st2 = write_file filename content st1
           in (None, print_msg (SavedRawTo filename) st2)))"

text \<open>
  Lines 129--142: what \<open>display_json\<close> prints about the parsed value after saving it. Each
  step yields the messages printed so far and the exception that ended it, if any;
  \<open>then_do\<close> runs the second step only when the first ended normally.
\<close>

type_synonym steps = "msg list \<times> py_exn option"

definition then_do :: "steps \<Rightarrow> steps \<Rightarrow> steps" where
  "then_do a b = (case snd a of Some e \<Rightarrow> a | None \<Rightarrow> (fst a @ fst b, snd b))"

definition guarded :: "py_exn + bool \<Rightarrow> steps \<Rightarrow> steps" where
  "guarded c body = (case c of Inl e \<Rightarrow> ([], Some e) | Inr False \<Rightarrow> ([], None) | Inr True \<Rightarrow> body)"

definition show_base_image :: "json \<Rightarrow> steps" where
  "show_base_image data_obj =
     guarded (py_in ''baseImage'' data_obj)
       (case py_getitem data_obj ''baseImage'' of
          Inl e \<Rightarrow> ([], Some e)
        | Inr v \<Rightarrow> (case py_len v of Inl e \<Rightarrow> ([], Some e) | Inr n \<Rightarrow> ([ContainsBaseImage n], None)))"

definition show_depth_image :: "json \<Rightarrow> steps" where
  "show_depth_image data_obj =
     guarded (py_in ''depthImage'' data_obj)
       (case py_get data_obj ''depthImage'' (JStr '''') of
          Inl e \<Rightarrow> ([], Some e)
        | Inr v \<Rightarrow> (case py_len v of Inl e \<Rightarrow> ([], Some e) | Inr n \<Rightarrow> ([ContainsDepthImage n], None)))"

definition show_depth_data :: "json \<Rightarrow> steps" where
  "show_depth_data data_obj =
     guarded (py_in ''depthData'' data_obj)
       (case py_get data_obj ''depthData'' (JObj []) of
          Inl e \<Rightarrow> ([], Some e)
        | Inr depth_data \<Rightarrow>
            (case py_get depth_data ''shape'' (JStr ''N/A'') of
               Inl e \<Rightarrow> ([ContainsDepthData], Some e)
             | Inr shape \<Rightarrow>
                 (case py_get depth_data ''valid_pixels'' (JStr ''N/A'') of
                    Inl e \<Rightarrow> ([ContainsDepthData, DepthShape shape], Some e)
                  | Inr vp \<Rightarrow> ([ContainsDepthData, DepthShape shape, DepthValidPixels vp], None))))"

definition show_signature :: "json \<Rightarrow> steps" where
  "show_signature data =
     guarded (py_in ''signature'' data)
       (case py_get data ''signature'' (JStr '''') of
          Inl e \<Rightarrow> ([], Some e)
        | Inr sig \<Rightarrow> (case py_sliceable sig of Inl e \<Rightarrow> ([], Some e) | Inr _ \<Rightarrow> ([Signature sig], None)))"

definition inspect_json :: "json \<Rightarrow> steps" where
  "inspect_json data =
     guarded (py_in ''data'' data)
       (case py_get data ''data'' (JObj []) of
          Inl e \<Rightarrow> ([], Some e)
        | Inr data_obj \<Rightarrow>
            then_do (show_base_image data_obj)
              (then_do (show_depth_image data_obj)
                (then_do (show_depth_data data_obj) (show_signature data))))"

text \<open>
  \<open>text = content.decode('utf-8')\<close> followed by \<open>json.loads(text)\<close>, as lines 114--115 and
  again lines 200--201 have it: the parsed value, or the exception of the step that failed.
\<close>

definition json_parse :: "pylib \<Rightarrow> bytes \<Rightarrow> py_exn + json" where
  "json_parse lib content =
     (case utf8_decode lib content of
        None \<Rightarrow> Inl UnicodeDecodeError
      | Some text \<Rightarrow> json_loads lib text)"

text \<open>The \<open>try\<close> block of \<open>display_json\<close>, lines 113--142.\<close>

definition display_json_try :: "pylib \<Rightarrow> bytes \<Rightarrow> str \<Rightarrow> state \<Rightarrow> py_exn option \<times> state" where
  "display_json_try lib content cid st =
     (case json_parse lib content of
        Inl e \<Rightarrow> (Some e, st)
      | Inr data \<Rightarrow>
          (let st1 = print_msgs [JSONRetrieved, JSONSize (length content), JSONContentHeader,
                                 JSONText (json_dumps_indent2 lib data)] st;
               filename = retrieved_name cid ''.json'';
               st2 = write_file filename (json_dumps_indent2 lib data) st1;
               st3 = print_msg (SavedTo filename) st2;
               (ms, e) = inspect_json data
           in (e, print_msgs ms st3)))"

text \<open>
  \<open>display_json\<close>, lines 110--158: the \<open>try\<close> block, then \<open>except json.JSONDecodeError\<close>,
  then \<open>except Exception\<close>. \<open>ignore_errors\<close> is \<open>decode('utf-8', errors='ignore')\<close>, whose
  result is only printed.
\<close>

definition display_json :: "pylib \<Rightarrow> bytes \<Rightarrow> str \<Rightarrow> state \<Rightarrow> py_exn option \<times> state" where
  "display_json lib content cid st =
     (case display_json_try lib content cid st of
        (None, st') \<Rightarrow> (None, st')
      | (Some JSONDecodeError, st') \<Rightarrow>
          (let st1 = print_msgs [NotValidJSON, First500Header, First500 (take 500 content)] st';
               filename = retrieved_name cid ''.txt'';
               st2 = write_file filename content st1
           in (None, print_msg (SavedRawTo filename) st2))
      | (Some e, st') \<Rightarrow>
          (let st1 = print_msg (ErrorProcessingJSON e) st';
               filename = retrieved_name cid ''.bin'';
               st2 = write_file filename content st1
           in (None, print_msg (SavedRawTo filename) st2)))"

section \<open>The batch driver\<close>

definition startswith :: "bytes \<Rightarrow> bytes \<Rightarrow> bool" where
  "startswith content p = (take (length p) content = p)"

definition JPEG_MAGIC :: bytes where
  "JPEG_MAGIC = [CHR 0xFF, CHR 0xD8, CHR 0xFF]"

definition PNG_MAGIC :: bytes where
  "PNG_MAGIC = CHR 0x89 # ''PNG''"

text \<open>The innermost handler of \<open>main\<close>, lines 211--218.\<close>

definition save_unknown :: "bytes \<Rightarrow> str \<Rightarrow> state \<Rightarrow> py_exn option \<times> state" where
  "save_unknown content cid st =
     (let st1 = print_msgs [UnknownContentType, UnknownSize (length content),
                            UnknownHex (take 200 content), UnknownText (take 200 content)] st;
          filename = retrieved_name cid ''.bin'';
          st2 = write_file filename content st1
      in (None, print_msg (SavedTo filename) st2))"

text \<open>
  Lines 205--218: the handler of the bare \<open>except\<close> around the JSON attempt. An exception
  that leaves \<open>display_image\<close> would be caught by the inner bare \<open>except\<close>.
\<close>

definition try_image :: "pylib \<Rightarrow> bytes \<Rightarrow> str \<Rightarrow> state \<Rightarrow> py_exn option \<times> state" where
  "try_image lib content cid st =
     (case image_open lib content of
        Inl e \<Rightarrow> save_unknown content cid st
      | Inr img \<Rightarrow>
          (case display_image lib content cid (print_msg (DetectedImage (img_format img)) st) of
             (None, st') \<Rightarrow> (None, st')
           | (Some e, st') \<Rightarrow> save_unknown content cid st'))"

text \<open>
  Lines 186--218, the part of the loop body of \<open>main\<close> that runs once the content is
  there: signature checks first, then the fallback \<open>try\<close> cascade.
\<close>

definition classify_and_render :: "pylib \<Rightarrow> bytes \<Rightarrow> str \<Rightarrow> state \<Rightarrow> py_exn option \<times> state" where
  "classify_and_render lib content cid st =
     (if startswith content JPEG_MAGIC then display_image lib content cid (print_msg DetectedJPEG st)
      else if startswith content PNG_MAGIC then display_image lib content cid (print_msg DetectedPNG st)
      else if startswith content ''{'' \<or> startswith content ''['' then
        display_json lib content cid (print_msg DetectedJSON st)
      else
        (case json_parse lib content of
           Inl e \<Rightarrow> try_image lib content cid st
         | Inr data \<Rightarrow>
             (case display_json lib content cid (print_msg DetectedJSON st) of
                (None, st') \<Rightarrow> (None, st')
              | (Some e, st') \<Rightarrow> try_image lib content cid st')))"

text \<open>The \<open>for cid in cids\<close> loop of \<open>main\<close>, lines 179--218.\<close>

fun main_loop :: "config \<Rightarrow> network \<Rightarrow> pylib \<Rightarrow> str list \<Rightarrow> state \<Rightarrow> py_exn option \<times> state" where
  "main_loop cfg net lib [] st = (None, st)"
| "main_loop cfg net lib (cid # cids) st =
     (case retrieve_from_ipfs cfg net cid (print_msg Separator st) of
        (Inl e, st') \<Rightarrow> (Some e, st')
      | (Inr None, st') \<Rightarrow> main_loop cfg net lib cids st'
      | (Inr (Some content), st') \<Rightarrow>
          (case classify_and_render lib content cid st' of
             (None, st'') \<Rightarrow> main_loop cfg net lib cids st''
           | (Some e, st'') \<Rightarrow> (Some e, st'')))"

definition image_cid :: str where
  "image_cid = ''bafkreifuoydyklral6zubbjrirvvu5jdxr6dypemkppzxamnoxfwwja7lu''"

definition metadata_cid :: str where
  "metadata_cid = ''bafybeicozdjmw4t3h7ryknzkfxe2v4anh7ablo4tvhrqvcuxqpx63g4e6u''"

text \<open>\<open>main\<close>, lines 160--221; \<open>argv\<close> is \<open>sys.argv\<close>.\<close>

definition main :: "config \<Rightarrow> network \<Rightarrow> pylib \<Rightarrow> str list \<Rightarrow> state \<Rightarrow> py_exn option \<times> state" where
  "main cfg net lib argv st =
     (let cids = (if length argv > 1 then drop 1 argv else [image_cid, metadata_cid]);
          st1 = print_msgs [Banner, Title, Banner, GatewayLine (PINATA_GATEWAY cfg)] st;
          st2 = (if truthy (PINATA_API_KEY cfg) then print_msg UsingApiAuth st1 else st1);
          st3 = print_msg BlankLine st2
      in case main_loop cfg net lib cids st3 of
           (None, st') \<Rightarrow> (None, print_msgs [Banner, RetrievalComplete] st')
         | (Some e, st') \<Rightarrow> (Some e, st'))"

section \<open>The upload service (main.py)\<close>

text \<open>
  The module-level configuration of the service. The names carry the suffix \<open>_srv\<close>
  because the retrieval script reads variables of the same names. \<open>SUPABASE_KEY_srv\<close> is
  \<open>os.getenv("SUPABASE_SERVICE_ROLE_KEY") or os.getenv("SUPABASE_ANON_KEY")\<close>.
\<close>

record server_config =
  PINATA_JWT_srv :: "str option"
  PINATA_API_KEY_srv :: "str option"
  PINATA_SECRET_KEY_srv :: "str option"
  PINATA_GATEWAY_srv :: "str option"
  SUPABASE_URL_srv :: "str option"
  SUPABASE_KEY_srv :: "str option"

definition load_server_config :: "(str \<rightharpoonup> str) \<Rightarrow> server_config" where
  "load_server_config environ =
     \<lparr> PINATA_JWT_srv = environ ''PINATA_JWT'',
       PINATA_API_KEY_srv = environ ''PINATA_API_KEY'',
       PINATA_SECRET_KEY_srv = environ ''PINATA_SECRET_KEY'',
       PINATA_GATEWAY_srv = environ ''PINATA_GATEWAY'',
       SUPABASE_URL_srv = environ ''SUPABASE_URL'',
       SUPABASE_KEY_srv = (if truthy (environ ''SUPABASE_SERVICE_ROLE_KEY'')
                           then environ ''SUPABASE_SERVICE_ROLE_KEY'' else environ ''SUPABASE_ANON_KEY'') \<rparr>"

text \<open>Lines 36--39: the checks that stop the module from loading.\<close>

definition startup_check :: "server_config \<Rightarrow> py_exn option" where
  "startup_check cfg =
     (if \<not> truthy (PINATA_JWT_srv cfg) \<and> (\<not> truthy (PINATA_API_KEY_srv cfg) \<or> \<not> truthy (PINATA_SECRET_KEY_srv cfg))
      then Some (ValueError ''Pinata credentials not found'')
      else if \<not> truthy (SUPABASE_URL_srv cfg) \<or> \<not> truthy (SUPABASE_KEY_srv cfg)
      then Some (ValueError ''Supabase credentials not found in environment variables'')
      else None)"



text \<open>
  A \<open>requests.post\<close> call carries either a multipart form (\<open>files=\<close> with one file of a
  name, its bytes and its content type, and \<open>data=\<close>) or a JSON body (\<open>json=\<close>). Of a
  response the service reads \<open>status_code\<close>, \<open>text\<close> (here \<open>resp_text\<close>) and \<open>json()\<close>, which may raise.
\<close>

datatype payload =
    Multipart str bytes str "(str \<times> str) list"
  | JsonBody json

record post_request =
  post_url :: str
  post_headers :: "(str \<times> str) list"
  post_payload :: payload
  post_timeout :: nat




datatype srv_msg =
    PinataUploadOk json
  | Supabase401Retry
  | SupabaseError str
  | SupabaseInsertOk
  | UploadingImage
  | ImageUploaded json
  | UploadingMetadata
  | MetadataUploaded json
  | StoringCids
  | CidsStored json json

record srv_state =
  posted :: "post_request list"
  srv_stdout :: "srv_msg list"

definition srv_print :: "srv_msg \<Rightarrow> srv_state \<Rightarrow> srv_state" where
  "srv_print m st = st\<lparr>srv_stdout := srv_stdout st @ [m]\<rparr>"


fun is_request_exception :: "py_exn \<Rightarrow> bool" where
  "is_request_exception (RequestException m) = True"
| "is_request_exception _ = False"

fun is_http_exception :: "py_exn \<Rightarrow> bool" where
  "is_http_exception (HTTPException code detail) = True"
| "is_http_exception _ = False"








text \<open>The two \<open>except\<close> clauses of \<open>store_in_supabase\<close>, lines 168--179.\<close>

definition supabase_except :: "py_exn \<Rightarrow> srv_state \<Rightarrow> (py_exn + json) \<times> srv_state" where
  "supabase_except e st =
     (if is_http_exception e then (Inl e, st)
      else if is_request_exception e
      then (Inl (HTTPException 500 ''Supabase insert failed''), srv_print (SupabaseError ''Supabase insert failed'') st)
      else (Inl e, st))"


text \<open>
  The uploaded file of a request: \<open>image.filename\<close> and the bytes \<open>await image.read()\<close>
  yields. A \<open>JSONResponse\<close> is its status code and its content.
\<close>

record upload_file =
  filename :: "str option"
  file_bytes :: bytes








section \<open>Vocabulary of the claims\<close>

text \<open>
  The classification the driver announces, and the message that announces it. \<open>classify\<close>
  follows the conditions of lines 188--211 in their order.
\<close>

datatype label = JPEG | PNG | JSON | GenericImage str | Unknown

fun label_msg :: "label \<Rightarrow> msg" where
  "label_msg JPEG = DetectedJPEG"
| "label_msg PNG = DetectedPNG"
| "label_msg JSON = DetectedJSON"
| "label_msg (GenericImage f) = DetectedImage f"
| "label_msg Unknown = UnknownContentType"

definition classify :: "pylib \<Rightarrow> bytes \<Rightarrow> label" where
  "classify lib content =
     (if startswith content JPEG_MAGIC then JPEG
      else if startswith content PNG_MAGIC then PNG
      else if startswith content ''{'' \<or> startswith content ''['' then JSON
      else (case json_parse lib content of
              Inr data \<Rightarrow> JSON
            | Inl e \<Rightarrow> (case image_open lib content of Inl e' \<Rightarrow> Unknown | Inr img \<Rightarrow> GenericImage (img_format img))))"

text \<open>
  The wording of the specification, for comparison: the first byte that is not ASCII
  whitespace (what \<open>bytes.isspace\<close> accepts).
\<close>

definition is_whitespace :: "char \<Rightarrow> bool" where
  "is_whitespace c = (c \<in> set [CHR 0x20, CHR 0x09, CHR 0x0A, CHR 0x0D, CHR 0x0B, CHR 0x0C])"

definition first_non_whitespace :: "bytes \<Rightarrow> char option" where
  "first_non_whitespace content =
     (case dropWhile is_whitespace content of [] \<Rightarrow> None | c # cs \<Rightarrow> Some c)"

section \<open>Concrete scenarios\<close>

text \<open>
  A library table for the scenarios below. It gives what CPython and Pillow give on the
  inputs the scenarios feed them: ASCII bytes decode to themselves, \<open>[1,2]\<close> and \<open>{}\<close>
  parse, \<open>json.dumps([1, 2], indent=2)\<close> puts each element on a line of its own, and
  no scenario payload is an image. The compact serialisers only feed form fields and
  upload bodies, and are left constant.
\<close>

definition lib_ex :: pylib where
  "lib_ex =
     \<lparr> utf8_decode = (\<lambda>b. if list_all (\<lambda>c. (of_char c :: nat) < 128) b then Some b else None),
       json_loads = (\<lambda>s. if s = ''[1,2]'' then Inr (JArr [JInt 1, JInt 2])
                          else if s = ''{}'' then Inr (JObj [])
                          else Inl JSONDecodeError),
       json_dumps_indent2 = (\<lambda>v. if v = JArr [JInt 1, JInt 2]
                                   then ''['' @ [CHR 0x0A] @ ''  1,'' @ [CHR 0x0A] @ ''  2'' @ [CHR 0x0A] @ '']''
                                   else ''{}''),
       json_dumps = (\<lambda>v. ''{}''),
       json_dumps_compact = (\<lambda>v. ''{}''),
       image_open = (\<lambda>b. Inl (OtherException ''UnidentifiedImageError'')),
       image_show = (\<lambda>img. False) \<rparr>"

definition st0 :: state where
  "st0 = \<lparr> sent = [], files = Map.empty, stdout = [] \<rparr>"

definition cfg_jwt :: config where
  "cfg_jwt = \<lparr> PINATA_GATEWAY = ''gw.example'', PINATA_API_KEY = None, PINATA_SECRET_KEY = None,
               PINATA_JWT = Some ''tok'' \<rparr>"

definition cfg_plain :: config where
  "cfg_plain = \<lparr> PINATA_GATEWAY = ''gw.example'', PINATA_API_KEY = None, PINATA_SECRET_KEY = None,
                 PINATA_JWT = None \<rparr>"

text \<open>
  The end-to-end scenario of the specification: the authenticated gateway times out,
  ipfs.io answers 404, the provider's public gateway answers 200.
\<close>

definition net_third :: network where
  "net_third h rq =
     (if req_headers rq \<noteq> [] then Raises (RequestException ''timed out'')
      else if req_url rq = ''https://gateway.pinata.cloud/ipfs/QmX'' then Response 200 ''{}''
      else Response 404 [])"

definition net_down :: network where
  "net_down h rq = Response 404 []"

text \<open>The batch scenario: nothing serves \<open>QmA\<close>, ipfs.io serves \<open>QmB\<close>.\<close>

definition net_batch :: network where
  "net_batch h rq =
     (if req_url rq = ''https://ipfs.io/ipfs/QmB'' then Response 200 ''[1,2]''
      else Raises (RequestException ''connection refused''))"






section \<open>Projections of the state\<close>

lemma sent_print_msg: "sent (print_msg m st) = sent st"
  by (simp add: print_msg_def)

lemma files_print_msg: "files (print_msg m st) = files st"
  by (simp add: print_msg_def)

lemma stdout_print_msg: "stdout (print_msg m st) = stdout st @ [m]"
  by (simp add: print_msg_def)

lemma sent_print_msgs: "sent (print_msgs ms st) = sent st"
  by (simp add: print_msgs_def)

lemma files_print_msgs: "files (print_msgs ms st) = files st"
  by (simp add: print_msgs_def)

lemma stdout_print_msgs: "stdout (print_msgs ms st) = stdout st @ ms"
  by (simp add: print_msgs_def)

lemma sent_write_file: "sent (write_file f c st) = sent st"
  by (simp add: write_file_def)

lemma files_write_file: "files (write_file f c st) = (files st)(f \<mapsto> c)"
  by (simp add: write_file_def)

lemma stdout_write_file: "stdout (write_file f c st) = stdout st"
  by (simp add: write_file_def)

lemmas state_simps =
  sent_print_msg files_print_msg stdout_print_msg sent_print_msgs files_print_msgs
  stdout_print_msgs sent_write_file files_write_file stdout_write_file

lemma retrieved_name_eq: "retrieved_name cid e1 = retrieved_name cid e2 \<longleftrightarrow> e1 = e2"
  by (simp add: retrieved_name_def)

section \<open>The rendering routines\<close>

lemma display_image_fst: "fst (display_image lib content cid st) = None"
  by (simp add: display_image_def Let_def split: sum.splits)

lemma display_image_files:
  "files (snd (display_image lib content cid st)) =
     (files st)(retrieved_name cid (case image_open lib content of Inr img \<Rightarrow> ''.jpg'' | Inl e \<Rightarrow> ''.bin'') \<mapsto> content)"
  by (simp add: display_image_def Let_def state_simps split: sum.splits)

lemma display_image_stdout: "\<exists>ms. stdout (snd (display_image lib content cid st)) = stdout st @ ms"
  by (simp add: display_image_def Let_def state_simps split: sum.splits)

lemma display_image_sent: "sent (snd (display_image lib content cid st)) = sent st"
  by (simp add: display_image_def Let_def state_simps split: sum.splits)

lemma display_json_try_fail:
  "json_parse lib content = Inl e \<Longrightarrow> display_json_try lib content cid st = (Some e, st)"
  by (simp add: display_json_try_def)

lemma display_json_try_ok:
  "json_parse lib content = Inr data \<Longrightarrow>
   \<exists>st'. display_json_try lib content cid st = (snd (inspect_json data), st') \<and>
         files st' = (files st)(retrieved_name cid ''.json'' \<mapsto> json_dumps_indent2 lib data) \<and>
         sent st' = sent st \<and> (\<exists>ms. stdout st' = stdout st @ ms)"
  by (simp add: display_json_try_def Let_def state_simps split: prod.splits)

lemma display_json_handlers:
  "display_json_try lib content cid st = (r, st') \<Longrightarrow>
   fst (display_json lib content cid st) = None \<and>
   sent (snd (display_json lib content cid st)) = sent st' \<and>
   (\<exists>ms. stdout (snd (display_json lib content cid st)) = stdout st' @ ms) \<and>
   files (snd (display_json lib content cid st)) =
     (case r of None \<Rightarrow> files st'
      | Some e \<Rightarrow> (files st')(retrieved_name cid (if e = JSONDecodeError then ''.txt'' else ''.bin'') \<mapsto> content))"
  by (cases r; (cases "the r")?) (simp_all add: display_json_def Let_def state_simps)

lemma display_json_fst: "fst (display_json lib content cid st) = None"
  using display_json_handlers [of lib content cid st] by (cases "display_json_try lib content cid st") simp

lemma display_json_sent: "sent (snd (display_json lib content cid st)) = sent st"
proof (cases "json_parse lib content")
  case (Inl e)
  from display_json_handlers [OF display_json_try_fail [OF Inl]] show ?thesis by simp
next
  case (Inr data)
  from display_json_try_ok [OF Inr, of cid st] obtain st' where
    t: "display_json_try lib content cid st = (snd (inspect_json data), st')" and s: "sent st' = sent st"
    by blast
  from display_json_handlers [OF t] s show ?thesis by simp
qed

lemma display_json_stdout: "\<exists>ms. stdout (snd (display_json lib content cid st)) = stdout st @ ms"
proof (cases "json_parse lib content")
  case (Inl e)
  from display_json_handlers [OF display_json_try_fail [OF Inl]] show ?thesis by simp
next
  case (Inr data)
  from display_json_try_ok [OF Inr, of cid st] obtain st' ms where
    t: "display_json_try lib content cid st = (snd (inspect_json data), st')" and s: "stdout st' = stdout st @ ms"
    by blast
  from display_json_handlers [OF t] obtain ms' where
    "stdout (snd (display_json lib content cid st)) = stdout st' @ ms'" by blast
  with s show ?thesis by simp
qed

lemma display_json_files_fail:
  assumes "json_parse lib content = Inl e"
  shows "files (snd (display_json lib content cid st)) =
           (files st)(retrieved_name cid (if e = JSONDecodeError then ''.txt'' else ''.bin'') \<mapsto> content)"
  using display_json_handlers [OF display_json_try_fail [OF assms], of cid st] by simp

lemma display_json_files_ok:
  assumes "json_parse lib content = Inr data"
  shows "files (snd (display_json lib content cid st)) (retrieved_name cid ''.json'') =
           Some (json_dumps_indent2 lib data)"
proof -
  from display_json_try_ok [OF assms, of cid st] obtain st' where
    t: "display_json_try lib content cid st = (snd (inspect_json data), st')"
    and f: "files st' = (files st)(retrieved_name cid ''.json'' \<mapsto> json_dumps_indent2 lib data)"
    by blast
  from display_json_handlers [OF t] f show ?thesis
    by (simp add: retrieved_name_eq split: option.splits)
qed

lemma save_unknown_facts:
  "fst (save_unknown content cid st) = None \<and>
   sent (snd (save_unknown content cid st)) = sent st \<and>
   files (snd (save_unknown content cid st)) = (files st)(retrieved_name cid ''.bin'' \<mapsto> content) \<and>
   (\<exists>ms. stdout (snd (save_unknown content cid st)) = stdout st @ UnknownContentType # ms)"
  by (simp add: save_unknown_def Let_def state_simps)

lemma swallow_display_json:
  "(case display_json lib content cid st of (None, st') \<Rightarrow> (None, st') | (Some e, st') \<Rightarrow> f e st') =
   display_json lib content cid st"
  using display_json_fst [of lib content cid st] by (cases "display_json lib content cid st") auto

lemma swallow_display_image:
  "(case display_image lib content cid st of (None, st') \<Rightarrow> (None, st') | (Some e, st') \<Rightarrow> f e st') =
   display_image lib content cid st"
  using display_image_fst [of lib content cid st] by (cases "display_image lib content cid st") auto

lemma try_image_alt:
  "try_image lib content cid st =
     (case image_open lib content of
        Inl e \<Rightarrow> save_unknown content cid st
      | Inr img \<Rightarrow> display_image lib content cid (print_msg (DetectedImage (img_format img)) st))"
  by (simp add: try_image_def swallow_display_image split: sum.splits)

lemma classify_and_render_alt:
  "classify_and_render lib content cid st =
     (case classify lib content of
        JPEG \<Rightarrow> display_image lib content cid (print_msg DetectedJPEG st)
      | PNG \<Rightarrow> display_image lib content cid (print_msg DetectedPNG st)
      | JSON \<Rightarrow> display_json lib content cid (print_msg DetectedJSON st)
      | GenericImage f \<Rightarrow> display_image lib content cid (print_msg (DetectedImage f) st)
      | Unknown \<Rightarrow> save_unknown content cid st)"
  by (simp add: classify_and_render_def classify_def swallow_display_json try_image_alt split: sum.splits)

lemma classify_and_render_fst: "fst (classify_and_render lib content cid st) = None"
  by (simp add: classify_and_render_alt display_image_fst display_json_fst save_unknown_facts split: label.splits)

lemma classify_and_render_sent: "sent (snd (classify_and_render lib content cid st)) = sent st"
  by (simp add: classify_and_render_alt display_image_sent display_json_sent save_unknown_facts state_simps
           split: label.splits)

lemma classify_and_render_stdout:
  "\<exists>rest. stdout (snd (classify_and_render lib content cid st)) = stdout st @ label_msg (classify lib content) # rest"
proof (cases "classify lib content")
  case JPEG
  with display_image_stdout [of lib content cid "print_msg DetectedJPEG st"] show ?thesis
    by (auto simp: classify_and_render_alt state_simps)
next
  case PNG
  with display_image_stdout [of lib content cid "print_msg DetectedPNG st"] show ?thesis
    by (auto simp: classify_and_render_alt state_simps)
next
  case JSON
  with display_json_stdout [of lib content cid "print_msg DetectedJSON st"] show ?thesis
    by (auto simp: classify_and_render_alt state_simps)
next
  case (GenericImage f)
  with display_image_stdout [of lib content cid "print_msg (DetectedImage f) st"] show ?thesis
    by (auto simp: classify_and_render_alt state_simps)
next
  case Unknown
  with save_unknown_facts [of content cid st] show ?thesis
    by (auto simp: classify_and_render_alt)
qed


section \<open>The resolver\<close>

lemma try_gateways_all_miss:
  "list_all is_miss (outcomes net (sent st) (map request_of gs)) \<Longrightarrow>
   fst (try_gateways net cid i gs st) = Inr None \<and>
   sent (snd (try_gateways net cid i gs st)) = sent st @ map request_of gs \<and>
   files (snd (try_gateways net cid i gs st)) = files st"
proof (induction gs arbitrary: i st)
  case Nil
  then show ?case by simp
next
  case (Cons g gs)
  from Cons.prems have miss: "is_miss (net (sent st) (request_of g))"
    and rest: "list_all is_miss (outcomes net (sent st @ [request_of g]) (map request_of gs))"
    by simp_all
  show ?case
  proof (cases "net (sent st) (request_of g)")
    case (Response code body)
    with miss have "code \<noteq> 200" by simp
    with Response rest Cons.IH show ?thesis
      by (simp add: http_get_def sent_print_msg files_print_msg Let_def)
  next
    case (Raises e)
    with miss obtain m where "e = RequestException m" by (cases e) simp_all
    with Raises rest Cons.IH show ?thesis
      by (simp add: http_get_def sent_print_msg files_print_msg Let_def)
  qed
qed

lemma try_gateways_first_hit:
  "list_all is_miss (outcomes net (sent st) (map request_of pre)) \<Longrightarrow>
   net (sent st @ map request_of pre) (request_of g) = Response 200 body \<Longrightarrow>
   fst (try_gateways net cid i (pre @ g # post) st) = Inr (Some body) \<and>
   sent (snd (try_gateways net cid i (pre @ g # post) st)) = sent st @ map request_of pre @ [request_of g] \<and>
   files (snd (try_gateways net cid i (pre @ g # post) st)) = files st"
proof (induction pre arbitrary: i st)
  case Nil
  then show ?case
    by (simp add: http_get_def sent_print_msg files_print_msg Let_def)
next
  case (Cons p pre)
  from Cons.prems have miss: "is_miss (net (sent st) (request_of p))"
    and rest: "list_all is_miss (outcomes net (sent st @ [request_of p]) (map request_of pre))"
    and hit: "net (sent st @ request_of p # map request_of pre) (request_of g) = Response 200 body"
    by simp_all
  show ?case
  proof (cases "net (sent st) (request_of p)")
    case (Response code b)
    with miss have "code \<noteq> 200" by simp
    with Response rest hit Cons.IH show ?thesis
      by (simp add: http_get_def sent_print_msg files_print_msg Let_def)
  next
    case (Raises e)
    with miss obtain m where "e = RequestException m" by (cases e) simp_all
    with Raises rest hit Cons.IH show ?thesis
      by (simp add: http_get_def sent_print_msg files_print_msg Let_def)
  qed
qed

lemma retrieve_all_miss:
  assumes "list_all is_miss (outcomes net (sent st) (map request_of (gateways cfg cid)))"
  shows "fst (retrieve_from_ipfs cfg net cid st) = Inr None"
    and "sent (snd (retrieve_from_ipfs cfg net cid st)) = sent st @ map request_of (gateways cfg cid)"
    and "files (snd (retrieve_from_ipfs cfg net cid st)) = files st"
proof -
  obtain r st' where t: "try_gateways net cid 0 (gateways cfg cid) st = (r, st')"
    by (cases "try_gateways net cid 0 (gateways cfg cid) st")
  with try_gateways_all_miss [OF assms, of cid 0]
  have r: "r = Inr None" and s: "sent st' = sent st @ map request_of (gateways cfg cid)"
    and f: "files st' = files st"
    by simp_all
  from t r show "fst (retrieve_from_ipfs cfg net cid st) = Inr None"
    by (simp add: retrieve_from_ipfs_def)
  from t r s show "sent (snd (retrieve_from_ipfs cfg net cid st)) = sent st @ map request_of (gateways cfg cid)"
    by (simp add: retrieve_from_ipfs_def state_simps)
  from t r f show "files (snd (retrieve_from_ipfs cfg net cid st)) = files st"
    by (simp add: retrieve_from_ipfs_def state_simps)
qed

lemma retrieve_first_hit:
  assumes "gateways cfg cid = pre @ g # post"
    and "list_all is_miss (outcomes net (sent st) (map request_of pre))"
    and "net (sent st @ map request_of pre) (request_of g) = Response 200 body"
  shows "fst (retrieve_from_ipfs cfg net cid st) = Inr (Some body)"
    and "sent (snd (retrieve_from_ipfs cfg net cid st)) = sent st @ map request_of pre @ [request_of g]"
    and "files (snd (retrieve_from_ipfs cfg net cid st)) = files st"
proof -
  obtain r st' where t: "try_gateways net cid 0 (pre @ g # post) st = (r, st')"
    by (cases "try_gateways net cid 0 (pre @ g # post) st")
  with try_gateways_first_hit [OF assms(2,3), of cid 0 post]
  have r: "r = Inr (Some body)" and s: "sent st' = sent st @ map request_of pre @ [request_of g]"
    and f: "files st' = files st"
    by simp_all
  from t r assms(1) show "fst (retrieve_from_ipfs cfg net cid st) = Inr (Some body)"
    by (simp add: retrieve_from_ipfs_def)
  from t r s assms(1)
  show "sent (snd (retrieve_from_ipfs cfg net cid st)) = sent st @ map request_of pre @ [request_of g]"
    by (simp add: retrieve_from_ipfs_def)
  from t r f assms(1) show "files (snd (retrieve_from_ipfs cfg net cid st)) = files st"
    by (simp add: retrieve_from_ipfs_def)
qed

section \<open>The batch driver\<close>

lemma main_loop_miss:
  assumes "fst (retrieve_from_ipfs cfg net cid (print_msg Separator st)) = Inr None"
  shows "main_loop cfg net lib (cid # cids) st =
           main_loop cfg net lib cids (snd (retrieve_from_ipfs cfg net cid (print_msg Separator st)))"
  using assms by (cases "retrieve_from_ipfs cfg net cid (print_msg Separator st)") simp

lemma main_loop_hit:
  assumes "retrieve_from_ipfs cfg net cid (print_msg Separator st) = (Inr (Some content), s)"
  shows "main_loop cfg net lib (cid # cids) st =
           main_loop cfg net lib cids (snd (classify_and_render lib content cid s))"
  using assms classify_and_render_fst [of lib content cid s]
  by (cases "classify_and_render lib content cid s") simp

lemma main_loop_append:
  "main_loop cfg net lib (xs @ ys) st =
     (case main_loop cfg net lib xs st of
        (None, s) \<Rightarrow> main_loop cfg net lib ys s
      | (Some e, s) \<Rightarrow> (Some e, s))"
  by (induction xs arbitrary: st) (simp_all split: prod.splits sum.splits option.splits)

section \<open>Properties of the retrieval script\<close>

text \<open>
  C3. The candidate list is, in this order: the authenticated primary gateway with a
  bearer-token header, present exactly when \<open>PINATA_JWT\<close> is set to a non-empty value;
  ipfs.io; the pinning provider's public gateway; dweb.link; the primary gateway again with
  no headers. Without a token only the first candidate is missing.
\<close>

theorem gateways_order:
  "gateways cfg cid =
     (if truthy (PINATA_JWT cfg)
      then [\<lparr> url = ''https://'' @ PINATA_GATEWAY cfg @ ''/ipfs/'' @ cid,
              headers = [(''Authorization'', ''Bearer '' @ the (PINATA_JWT cfg))],
              name = ''Pinata Authenticated Gateway (JWT)'' \<rparr>]
      else []) @
     [ \<lparr> url = ''https://ipfs.io/ipfs/'' @ cid, headers = [], name = ''IPFS.io Public Gateway'' \<rparr>,
       \<lparr> url = ''https://gateway.pinata.cloud/ipfs/'' @ cid, headers = [], name = ''Pinata Public Gateway'' \<rparr>,
       \<lparr> url = ''https://dweb.link/ipfs/'' @ cid, headers = [], name = ''Protocol Labs dweb.link'' \<rparr>,
       \<lparr> url = ''https://'' @ PINATA_GATEWAY cfg @ ''/ipfs/'' @ cid, headers = [], name = ''Custom Pinata Gateway'' \<rparr> ]"
  by (cases "PINATA_JWT cfg") (simp_all add: gateways_def auth_gateway_def public_gateways_def)

text \<open>
  C9. Whatever the configuration, the candidate list ends with the four candidates that
  carry no credentials, so it has at least four entries and is never empty.
\<close>

theorem gateways_never_empty:
  "gateways cfg cid \<noteq> [] \<and> 4 \<le> length (gateways cfg cid) \<and>
   drop (length (gateways cfg cid) - 4) (gateways cfg cid) = public_gateways cfg cid \<and>
   length (public_gateways cfg cid) = 4"
  by (simp add: gateways_def public_gateways_def)

text \<open>
  C1. Split the candidate list at any candidate \<open>g\<close>. If every candidate before \<open>g\<close> misses
  (a status other than 200, or a transport error) and \<open>g\<close> answers 200 with \<open>body\<close>, the
  resolver returns exactly \<open>body\<close>, and the requests it has issued are those of the
  candidates up to \<open>g\<close>, each once and in order: no later candidate is asked.
\<close>
theorem retrieve_short_circuit:
  assumes "gateways cfg cid = pre @ g # post"
    and "list_all is_miss (outcomes net (sent st) (map request_of pre))"
    and "net (sent st @ map request_of pre) (request_of g) = Response 200 body"
  shows "fst (retrieve_from_ipfs cfg net cid st) = Inr (Some body) \<and>
         sent (snd (retrieve_from_ipfs cfg net cid st)) = sent st @ map request_of pre @ [request_of g]"
  using retrieve_first_hit [OF assms] by simp

text \<open>
  The end-to-end scenario: time-out, then 404, then 200 from the third candidate.
\<close>
theorem retrieve_short_circuit_witness:
  "fst (retrieve_from_ipfs cfg_jwt net_third ''QmX'' st0) = Inr (Some ''{}'') \<and>
   sent (snd (retrieve_from_ipfs cfg_jwt net_third ''QmX'' st0)) =
     map request_of (take 3 (gateways cfg_jwt ''QmX''))"
proof -
  let ?gs = "gateways cfg_jwt ''QmX''"
  have g: "?gs = take 2 ?gs @ (?gs ! 2) # drop 3 ?gs"
    by (simp add: gateways_def public_gateways_def cfg_jwt_def)
  have m: "list_all is_miss (outcomes net_third (sent st0) (map request_of (take 2 ?gs)))"
    by (simp add: gateways_def public_gateways_def auth_gateway_def cfg_jwt_def net_third_def
          request_of_def st0_def)
  have h: "net_third (sent st0 @ map request_of (take 2 ?gs)) (request_of (?gs ! 2)) = Response 200 ''{}''"
    by (simp add: gateways_def public_gateways_def auth_gateway_def cfg_jwt_def net_third_def
          request_of_def st0_def)
  from retrieve_short_circuit [OF g m h] show ?thesis
    by (simp add: gateways_def public_gateways_def cfg_jwt_def st0_def)
qed

text \<open>
  C2. If every candidate misses, the resolver returns \<open>None\<close> as a value, not an
  exception, and the requests it has issued are exactly those of the candidate list,
  each once and in priority order.
\<close>
theorem retrieve_exhaustion:
  assumes "list_all is_miss (outcomes net (sent st) (map request_of (gateways cfg cid)))"
  shows "fst (retrieve_from_ipfs cfg net cid st) = Inr None \<and>
         sent (snd (retrieve_from_ipfs cfg net cid st)) = sent st @ map request_of (gateways cfg cid)"
  using retrieve_all_miss [OF assms] by simp

text \<open>Every gateway answers 404 and no token is configured: four requests, then \<open>None\<close>.\<close>
theorem retrieve_exhaustion_witness:
  "fst (retrieve_from_ipfs cfg_plain net_down ''QmX'' st0) = Inr None \<and>
   sent (snd (retrieve_from_ipfs cfg_plain net_down ''QmX'' st0)) =
     map request_of (public_gateways cfg_plain ''QmX'')"
proof -
  have m: "list_all is_miss (outcomes net_down (sent st0) (map request_of (gateways cfg_plain ''QmX'')))"
    by (simp add: gateways_def public_gateways_def cfg_plain_def net_down_def)
  from retrieve_exhaustion [OF m] show ?thesis
    by (simp add: gateways_def cfg_plain_def st0_def)
qed


text \<open>
  C4, as the code has it. For content that starts with neither image signature, a first
  byte \<open>{\<close> or \<open>[\<close> classifies it as JSON and hands it to \<open>display_json\<close>. The test is
  \<open>content.startswith\<close>, on the very first byte; no whitespace is skipped.
\<close>
theorem first_byte_routes_to_json:
  assumes "\<not> startswith content JPEG_MAGIC" and "\<not> startswith content PNG_MAGIC"
    and "startswith content ''{'' \<or> startswith content ''[''"
  shows "classify lib content = JSON \<and>
         classify_and_render lib content cid st = display_json lib content cid (print_msg DetectedJSON st)"
  using assms by (simp add: classify_def classify_and_render_def)

text \<open>The payload \<open>[1,2]\<close> takes that branch.\<close>
theorem first_byte_routes_to_json_witness:
  "classify lib_ex ''[1,2]'' = JSON \<and>
   classify_and_render lib_ex ''[1,2]'' ''QmX'' st0 = display_json lib_ex ''[1,2]'' ''QmX'' (print_msg DetectedJSON st0)"
proof -
  have a: "\<not> startswith ''[1,2]'' JPEG_MAGIC" by (simp add: startswith_def JPEG_MAGIC_def)
  have b: "\<not> startswith ''[1,2]'' PNG_MAGIC" by (simp add: startswith_def PNG_MAGIC_def)
  have c: "startswith ''[1,2]'' ''{'' \<or> startswith ''[1,2]'' ''[''" by (simp add: startswith_def)
  from first_byte_routes_to_json [OF a b c] show ?thesis .
qed

text \<open>
  C4 as worded, with the first non-whitespace byte, fails on the two bytes space and
  \<open>{\<close>: the first-byte test misses, the bytes do not parse as JSON and are no image, so the
  driver reports an unknown content type and saves \<open>.bin\<close>; \<open>display_json\<close>, which would
  have saved \<open>.txt\<close>, is never called.
\<close>
theorem leading_whitespace_not_json:
  "\<not> startswith '' {'' JPEG_MAGIC \<and> \<not> startswith '' {'' PNG_MAGIC \<and>
   first_non_whitespace '' {'' = Some CHR ''{'' \<and>
   classify lib_ex '' {'' = Unknown \<and>
   classify_and_render lib_ex '' {'' ''QmX'' st0 \<noteq> display_json lib_ex '' {'' ''QmX'' (print_msg DetectedJSON st0) \<and>
   classify_and_render lib_ex '' {'' ''QmX'' st0 = save_unknown '' {'' ''QmX'' st0 \<and>
   files (snd (classify_and_render lib_ex '' {'' ''QmX'' st0)) = [''retrieved_QmX.bin'' \<mapsto> '' {'']"
proof -
  have a: "\<not> startswith '' {'' JPEG_MAGIC" by (simp add: startswith_def JPEG_MAGIC_def)
  have b: "\<not> startswith '' {'' PNG_MAGIC" by (simp add: startswith_def PNG_MAGIC_def)
  have c: "first_non_whitespace '' {'' = Some CHR ''{''"
    by (simp add: first_non_whitespace_def is_whitespace_def)
  have p: "json_parse lib_ex '' {'' = Inl JSONDecodeError"
    by (simp add: json_parse_def lib_ex_def)
  have d: "classify lib_ex '' {'' = Unknown"
    using a b p by (simp add: classify_def startswith_def lib_ex_def)
  have e: "classify_and_render lib_ex '' {'' ''QmX'' st0 = save_unknown '' {'' ''QmX'' st0"
    using d by (simp add: classify_and_render_alt)
  have f: "files (snd (save_unknown '' {'' ''QmX'' st0)) = [''retrieved_QmX.bin'' \<mapsto> '' {'']"
    by (simp add: save_unknown_facts retrieved_name_def st0_def)
  have g: "files (snd (display_json lib_ex '' {'' ''QmX'' (print_msg DetectedJSON st0))) =
             [''retrieved_QmX.txt'' \<mapsto> '' {'']"
    by (simp add: display_json_files_fail [OF p] retrieved_name_def st0_def state_simps)
  have "[''retrieved_QmX.bin'' \<mapsto> '' {''] \<noteq> [''retrieved_QmX.txt'' \<mapsto> '' {'']"
  proof
    assume "[''retrieved_QmX.bin'' \<mapsto> '' {''] = [''retrieved_QmX.txt'' \<mapsto> '' {'']"
    then have "[''retrieved_QmX.bin'' \<mapsto> '' {''] ''retrieved_QmX.bin'' =
               [''retrieved_QmX.txt'' \<mapsto> '' {''] ''retrieved_QmX.bin''" by simp
    then show False by simp
  qed
  with f g have h: "save_unknown '' {'' ''QmX'' st0 \<noteq> display_json lib_ex '' {'' ''QmX'' (print_msg DetectedJSON st0)"
    by auto
  from a b c d e f h show ?thesis by simp
qed

text \<open>
  C5, as the code has it. Whatever the classification, the rendering path ends normally
  and leaves a file named \<open>retrieved_\<close>, the first 10 characters of the identifier, and
  an extension that follows the classification: \<open>.jpg\<close> for content Pillow opens and
  \<open>.bin\<close> for content it does not, \<open>.json\<close> for JSON that parses, \<open>.txt\<close> for JSON that fails
  with \<open>JSONDecodeError\<close> and \<open>.bin\<close> for any other failure, \<open>.bin\<close> for unknown content.
  The file holds the retrieved bytes in every case but one: the \<open>.json\<close> file holds the
  parsed value serialised again by \<open>json.dump\<close> with \<open>indent=2\<close>.
\<close>
theorem render_persists_file:
  "fst (classify_and_render lib content cid st) = None \<and>
   (case classify lib content of
      JSON \<Rightarrow>
        (case json_parse lib content of
           Inr data \<Rightarrow>
             files (snd (classify_and_render lib content cid st)) (retrieved_name cid ''.json'') =
               Some (json_dumps_indent2 lib data)
         | Inl e \<Rightarrow>
             files (snd (classify_and_render lib content cid st))
               (retrieved_name cid (if e = JSONDecodeError then ''.txt'' else ''.bin'')) = Some content)
    | Unknown \<Rightarrow>
        files (snd (classify_and_render lib content cid st)) (retrieved_name cid ''.bin'') = Some content
    | _ \<Rightarrow>
        files (snd (classify_and_render lib content cid st))
          (retrieved_name cid (case image_open lib content of Inr img \<Rightarrow> ''.jpg'' | Inl e \<Rightarrow> ''.bin'')) =
          Some content)"
proof (cases "classify lib content")
  case JSON
  show ?thesis
  proof (cases "json_parse lib content")
    case (Inl e)
    with JSON show ?thesis
      by (simp add: classify_and_render_alt display_json_fst display_json_files_fail)
  next
    case (Inr data)
    with JSON show ?thesis
      by (simp add: classify_and_render_alt display_json_fst display_json_files_ok)
  qed
qed (simp_all add: classify_and_render_alt display_image_fst display_image_files save_unknown_facts)

text \<open>
  C5 as worded, with the retrieved bytes in the file, fails on the payload \<open>[1,2]\<close>: the
  only file written is \<open>retrieved_QmX.json\<close>, and it holds the four-line layout that
  \<open>json.dump\<close> with \<open>indent=2\<close> produces, not the five bytes retrieved.
\<close>
theorem json_file_is_reserialised:
  "classify lib_ex ''[1,2]'' = JSON \<and>
   files (snd (classify_and_render lib_ex ''[1,2]'' ''QmX'' st0)) =
     [''retrieved_QmX.json'' \<mapsto> ''['' @ [CHR 0x0A] @ ''  1,'' @ [CHR 0x0A] @ ''  2'' @ [CHR 0x0A] @ '']''] \<and>
   files (snd (classify_and_render lib_ex ''[1,2]'' ''QmX'' st0)) ''retrieved_QmX.json'' \<noteq> Some ''[1,2]'' \<and>
   files (snd (classify_and_render lib_ex ''[1,2]'' ''QmX'' st0)) ''retrieved_QmX.jpg'' \<noteq> Some ''[1,2]'' \<and>
   files (snd (classify_and_render lib_ex ''[1,2]'' ''QmX'' st0)) ''retrieved_QmX.bin'' \<noteq> Some ''[1,2]'' \<and>
   files (snd (classify_and_render lib_ex ''[1,2]'' ''QmX'' st0)) ''retrieved_QmX.txt'' \<noteq> Some ''[1,2]''"
proof -
  have c: "classify lib_ex ''[1,2]'' = JSON"
    by (simp add: classify_def startswith_def JPEG_MAGIC_def PNG_MAGIC_def)
  have p: "json_parse lib_ex ''[1,2]'' = Inr (JArr [JInt 1, JInt 2])"
    by (simp add: json_parse_def lib_ex_def)
  have i: "inspect_json (JArr [JInt 1, JInt 2]) = ([], None)"
    by (simp add: inspect_json_def guarded_def)
  have t: "display_json_try lib_ex ''[1,2]'' ''QmX'' (print_msg DetectedJSON st0) =
             (None, snd (display_json_try lib_ex ''[1,2]'' ''QmX'' (print_msg DetectedJSON st0)))"
    by (simp add: display_json_try_def p i Let_def)
  have d: "json_dumps_indent2 lib_ex (JArr [JInt 1, JInt 2]) =
             ''['' @ [CHR 0x0A] @ ''  1,'' @ [CHR 0x0A] @ ''  2'' @ [CHR 0x0A] @ '']''"
    by (simp add: lib_ex_def)
  have f: "files (snd (display_json_try lib_ex ''[1,2]'' ''QmX'' (print_msg DetectedJSON st0))) =
             [''retrieved_QmX.json'' \<mapsto> ''['' @ [CHR 0x0A] @ ''  1,'' @ [CHR 0x0A] @ ''  2'' @ [CHR 0x0A] @ '']'']"
    by (simp add: display_json_try_def p i d Let_def state_simps retrieved_name_def st0_def)
  from display_json_handlers [OF t] f
  have "files (snd (display_json lib_ex ''[1,2]'' ''QmX'' (print_msg DetectedJSON st0))) =
          [''retrieved_QmX.json'' \<mapsto> ''['' @ [CHR 0x0A] @ ''  1,'' @ [CHR 0x0A] @ ''  2'' @ [CHR 0x0A] @ '']'']"
    by simp
  with c show ?thesis
    by (simp add: classify_and_render_alt)
qed

text \<open>
  C6. When \<open>display_image\<close> is handed bytes that Pillow cannot open, it returns normally
  and has saved exactly those bytes as \<open>.bin\<close>. When \<open>display_json\<close> is handed bytes that
  do not decode or do not parse, it returns normally and has saved exactly those bytes,
  as \<open>.txt\<close> after a \<open>JSONDecodeError\<close> and as \<open>.bin\<close> after any other exception.
\<close>
theorem render_failure_saves_raw:
  assumes "image_open lib ci = Inl e" and "json_parse lib cj = Inl e'"
  shows "fst (display_image lib ci cid st) = None \<and>
         files (snd (display_image lib ci cid st)) = (files st)(retrieved_name cid ''.bin'' \<mapsto> ci) \<and>
         fst (display_json lib cj cid st) = None \<and>
         files (snd (display_json lib cj cid st)) =
           (files st)(retrieved_name cid (if e' = JSONDecodeError then ''.txt'' else ''.bin'') \<mapsto> cj)"
  using assms by (simp add: display_image_fst display_image_files display_json_fst display_json_files_fail)

text \<open>Two payloads that fail: \<open>zz\<close> as an image and \<open>{oops\<close> as JSON.\<close>
theorem render_failure_saves_raw_witness:
  "fst (display_image lib_ex ''zz'' ''QmX'' st0) = None \<and>
   files (snd (display_image lib_ex ''zz'' ''QmX'' st0)) = [''retrieved_QmX.bin'' \<mapsto> ''zz''] \<and>
   fst (display_json lib_ex ''{oops'' ''QmX'' st0) = None \<and>
   files (snd (display_json lib_ex ''{oops'' ''QmX'' st0)) = [''retrieved_QmX.txt'' \<mapsto> ''{oops'']"
proof -
  have a: "image_open lib_ex ''zz'' = Inl (OtherException ''UnidentifiedImageError'')"
    by (simp add: lib_ex_def)
  have b: "json_parse lib_ex ''{oops'' = Inl JSONDecodeError"
    by (simp add: json_parse_def lib_ex_def)
  from render_failure_saves_raw [OF a b, of "''QmX''" st0] show ?thesis
    by (simp add: retrieved_name_def st0_def)
qed

text \<open>
  C7. If every gateway misses for an identifier, the resolver reports \<open>None\<close> and the
  driver goes on with the rest of the list from the state the failed lookup left. In
  particular, for two identifiers of which the first fails everywhere and the second is
  retrieved, the run ends normally after classifying and rendering the second. Identifiers
  are processed one after the other in input order: running the driver on \<open>xs @ ys\<close> is
  running it on \<open>xs\<close> and then, unless an exception ended that, on \<open>ys\<close>.
\<close>
theorem batch_continues_after_failure:
  assumes "list_all is_miss (outcomes net (sent st) (map request_of (gateways cfg cid)))"
  shows "fst (retrieve_from_ipfs cfg net cid (print_msg Separator st)) = Inr None \<and>
         main_loop cfg net lib (cid # cids) st =
           main_loop cfg net lib cids (snd (retrieve_from_ipfs cfg net cid (print_msg Separator st))) \<and>
         (retrieve_from_ipfs cfg net cid2
            (print_msg Separator (snd (retrieve_from_ipfs cfg net cid (print_msg Separator st)))) =
            (Inr (Some content), s2) \<longrightarrow>
          main_loop cfg net lib [cid, cid2] st = (None, snd (classify_and_render lib content cid2 s2))) \<and>
         main_loop cfg net lib (xs @ ys) s =
           (case main_loop cfg net lib xs s of
              (None, s') \<Rightarrow> main_loop cfg net lib ys s'
            | (Some ex, s') \<Rightarrow> (Some ex, s'))"
proof -
  from assms have "list_all is_miss (outcomes net (sent (print_msg Separator st)) (map request_of (gateways cfg cid)))"
    by (simp add: state_simps)
  from retrieve_all_miss(1) [OF this]
  have r: "fst (retrieve_from_ipfs cfg net cid (print_msg Separator st)) = Inr None" .
  have step: "main_loop cfg net lib (cid # cs) st =
           main_loop cfg net lib cs (snd (retrieve_from_ipfs cfg net cid (print_msg Separator st)))" for cs
    by (rule main_loop_miss [OF r])
  have two: "main_loop cfg net lib [cid, cid2] st = (None, snd (classify_and_render lib content cid2 s2))"
    if "retrieve_from_ipfs cfg net cid2
            (print_msg Separator (snd (retrieve_from_ipfs cfg net cid (print_msg Separator st)))) =
            (Inr (Some content), s2)"
    using main_loop_hit [OF that, of lib "[]"] step [of "[cid2]"] by simp
  from r step two main_loop_append [of cfg net lib xs ys s] show ?thesis by simp
qed

text \<open>
  The batch scenario: \<open>QmA\<close> fails on all four gateways, \<open>QmB\<close> is then fetched from the
  first one and saved.
\<close>
theorem batch_continues_after_failure_witness:
  "fst (main_loop cfg_plain net_batch lib_ex [''QmA'', ''QmB''] st0) = None \<and>
   files (snd (main_loop cfg_plain net_batch lib_ex [''QmA'', ''QmB''] st0)) ''retrieved_QmB.json'' =
     Some (''['' @ [CHR 0x0A] @ ''  1,'' @ [CHR 0x0A] @ ''  2'' @ [CHR 0x0A] @ '']'') \<and>
   sent (snd (main_loop cfg_plain net_batch lib_ex [''QmA'', ''QmB''] st0)) =
     map request_of (gateways cfg_plain ''QmA'') @ [request_of (hd (gateways cfg_plain ''QmB''))]"
proof -
  let ?s1 = "snd (retrieve_from_ipfs cfg_plain net_batch ''QmA'' (print_msg Separator st0))"
  let ?r2 = "retrieve_from_ipfs cfg_plain net_batch ''QmB'' (print_msg Separator ?s1)"
  have m: "list_all is_miss (outcomes net_batch (sent st0) (map request_of (gateways cfg_plain ''QmA'')))"
    by (simp add: gateways_def public_gateways_def cfg_plain_def net_batch_def request_of_def)
  have m': "list_all is_miss (outcomes net_batch (sent (print_msg Separator st0))
              (map request_of (gateways cfg_plain ''QmA'')))"
    by (simp add: gateways_def public_gateways_def cfg_plain_def net_batch_def request_of_def)
  have s1: "sent ?s1 = map request_of (gateways cfg_plain ''QmA'')"
    using retrieve_all_miss(2) [OF m'] by (simp add: state_simps st0_def)
  have f1: "files ?s1 = Map.empty"
    using retrieve_all_miss(3) [OF m'] by (simp add: state_simps st0_def)
  have g: "gateways cfg_plain ''QmB'' = [] @ hd (gateways cfg_plain ''QmB'') # tl (gateways cfg_plain ''QmB'')"
    by (simp add: gateways_def public_gateways_def cfg_plain_def)
  have h: "net_batch (sent (print_msg Separator ?s1) @ map request_of [])
             (request_of (hd (gateways cfg_plain ''QmB''))) = Response 200 ''[1,2]''"
    by (simp add: gateways_def public_gateways_def cfg_plain_def net_batch_def request_of_def)
  have e: "list_all is_miss (outcomes net_batch (sent (print_msg Separator ?s1)) (map request_of []))"
    by simp
  have r2: "?r2 = (Inr (Some ''[1,2]''), snd ?r2)"
    using retrieve_first_hit(1) [OF g e h] by (cases ?r2) simp
  have s2: "sent (snd ?r2) = map request_of (gateways cfg_plain ''QmA'') @ [request_of (hd (gateways cfg_plain ''QmB''))]"
    using retrieve_first_hit(2) [OF g e h] s1 by (simp add: state_simps)
  have p: "json_parse lib_ex ''[1,2]'' = Inr (JArr [JInt 1, JInt 2])"
    by (simp add: json_parse_def lib_ex_def)
  have c: "classify lib_ex ''[1,2]'' = JSON"
    by (simp add: classify_def startswith_def JPEG_MAGIC_def PNG_MAGIC_def)
  have d: "json_dumps_indent2 lib_ex (JArr [JInt 1, JInt 2]) =
             ''['' @ [CHR 0x0A] @ ''  1,'' @ [CHR 0x0A] @ ''  2'' @ [CHR 0x0A] @ '']''"
    by (simp add: lib_ex_def)
  from batch_continues_after_failure [OF m, of lib_ex "[]" "''QmB''" "''[1,2]''" "snd ?r2"] r2
  have ml: "main_loop cfg_plain net_batch lib_ex [''QmA'', ''QmB''] st0 =
          (None, snd (classify_and_render lib_ex ''[1,2]'' ''QmB'' (snd ?r2)))"
    by blast
  have "files (snd (classify_and_render lib_ex ''[1,2]'' ''QmB'' (snd ?r2))) ''retrieved_QmB.json'' =
          Some (''['' @ [CHR 0x0A] @ ''  1,'' @ [CHR 0x0A] @ ''  2'' @ [CHR 0x0A] @ '']'')"
    using c d display_json_files_ok [OF p, of "''QmB''" "print_msg DetectedJSON (snd ?r2)"]
    by (simp add: classify_and_render_alt retrieved_name_def)
  moreover have "sent (snd (classify_and_render lib_ex ''[1,2]'' ''QmB'' (snd ?r2))) =
          map request_of (gateways cfg_plain ''QmA'') @ [request_of (hd (gateways cfg_plain ''QmB''))]"
    by (simp only: classify_and_render_sent s2)
  ultimately show ?thesis
    unfolding ml by (simp only: fst_conv snd_conv simp_thms)
qed

text \<open>
  C8. The label the driver announces and the routine it calls are given by
  \<open>classify lib content\<close>, a function of the payload bytes (and of the fixed library
  functions) alone: two runs on the same bytes, with any identifiers and from any states,
  announce the same label. No response header reaches the classification; the resolver
  hands over \<open>response.content\<close> only.
\<close>
theorem classification_deterministic:
  "(\<exists>rest. stdout (snd (classify_and_render lib content cid st)) =
             stdout st @ label_msg (classify lib content) # rest) \<and>
   take 1 (drop (length (stdout st)) (stdout (snd (classify_and_render lib content cid st)))) =
     take 1 (drop (length (stdout st')) (stdout (snd (classify_and_render lib content cid' st')))) \<and>
   classify_and_render lib content cid st =
     (case classify lib content of
        JPEG \<Rightarrow> display_image lib content cid (print_msg DetectedJPEG st)
      | PNG \<Rightarrow> display_image lib content cid (print_msg DetectedPNG st)
      | JSON \<Rightarrow> display_json lib content cid (print_msg DetectedJSON st)
      | GenericImage f \<Rightarrow> display_image lib content cid (print_msg (DetectedImage f) st)
      | Unknown \<Rightarrow> save_unknown content cid st)"
proof -
  from classify_and_render_stdout [of lib content cid st] obtain rest where
    a: "stdout (snd (classify_and_render lib content cid st)) = stdout st @ label_msg (classify lib content) # rest"
    by blast
  from classify_and_render_stdout [of lib content cid' st'] obtain rest' where
    b: "stdout (snd (classify_and_render lib content cid' st')) = stdout st' @ label_msg (classify lib content) # rest'"
    by blast
  from a b show ?thesis
    by (simp add: classify_and_render_alt [symmetric])
qed

section \<open>Properties of the upload service\<close>



lemma supabase_except_fails: "fst (supabase_except e st) \<noteq> Inr v"
  by (simp add: supabase_except_def)










end
